theory Spec2Isabelle
  imports Complex_Main
begin

section \<open>Python values\<close>

text \<open>
  The exceptions that occur in the modelled code. Only \<open>JSONDecodeError\<close>, \<open>TypeError\<close>
  and \<open>KeyError\<close> are named by the handler in \<open>parse_news_html\<close>;
  \<open>IntegrityError\<close> is \<open>sqlite3.IntegrityError\<close>.
\<close>

datatype exn =
  JSONDecodeError | TypeError | KeyError | AttributeError | IndexError | IntegrityError

text \<open>
  What \<open>json.loads\<close> builds: \<open>None\<close>, \<open>bool\<close>, \<open>int\<close>, \<open>float\<close>, \<open>str\<close>, \<open>list\<close>
  and \<open>dict\<close>. A \<open>dict\<close> is kept as the list of its entries in insertion order; Python
  dictionaries hold each key once. A string is a list of characters, each standing for one
  code point below 256.
\<close>

datatype json =
    JNull
  | JBool bool
  | JNum int
  | JFloat real
  | JStr string
  | JArr "json list"
  | JObj "(string \<times> json) list"

text \<open>Truth value of an object, as \<open>if x:\<close> tests it.\<close>

fun truthy :: "json \<Rightarrow> bool" where
  "truthy JNull = False"
| "truthy (JBool b) = b"
| "truthy (JNum n) = (n \<noteq> 0)"
| "truthy (JFloat x) = (x \<noteq> 0)"
| "truthy (JStr s) = (s \<noteq> [])"
| "truthy (JArr xs) = (xs \<noteq> [])"
| "truthy (JObj kvs) = (kvs \<noteq> [])"

fun is_dict :: "json \<Rightarrow> bool" where
  "is_dict (JObj kvs) = True"
| "is_dict v = False"

text \<open>\<open>needle in haystack\<close> for two strings: a contiguous occurrence.\<close>

fun str_contains :: "string \<Rightarrow> string \<Rightarrow> bool" where
  "str_contains needle [] = (needle = [])"
| "str_contains needle (c # cs) =
     (take (length needle) (c # cs) = needle \<or> str_contains needle cs)"

text \<open>\<open>k in v\<close> for a string literal \<open>k\<close>: key of a dict, element of a list, substring of
  a string; anything else is not a container.\<close>

fun py_in :: "string \<Rightarrow> json \<Rightarrow> exn + bool" where
  "py_in k (JObj kvs) = Inr (map_of kvs k \<noteq> None)"
| "py_in k (JArr xs) = Inr (JStr k \<in> set xs)"
| "py_in k (JStr s) = Inr (str_contains k s)"
| "py_in k v = Inl TypeError"

text \<open>The integer an object stands for when used as a sequence index (\<open>bool\<close> is a
  subclass of \<open>int\<close>).\<close>

fun as_index :: "json \<Rightarrow> int option" where
  "as_index (JNum i) = Some i"
| "as_index (JBool b) = Some (if b then 1 else 0)"
| "as_index v = None"

definition seq_item :: "'a list \<Rightarrow> int \<Rightarrow> exn + 'a" where
  "seq_item xs i =
     (if 0 \<le> i \<and> i < int (length xs) then Inr (xs ! nat i)
      else if i < 0 \<and> 0 \<le> int (length xs) + i then Inr (xs ! nat (int (length xs) + i))
      else Inl IndexError)"

text \<open>\<open>v[k]\<close>.\<close>

fun py_getitem :: "json \<Rightarrow> json \<Rightarrow> exn + json" where
  "py_getitem (JObj kvs) (JStr k) =
     (case map_of kvs k of Some v \<Rightarrow> Inr v | None \<Rightarrow> Inl KeyError)"
| "py_getitem (JObj kvs) (JArr xs) = Inl TypeError"
| "py_getitem (JObj kvs) (JObj ys) = Inl TypeError"
| "py_getitem (JObj kvs) k = Inl KeyError"
| "py_getitem (JArr xs) k =
     (case as_index k of Some i \<Rightarrow> seq_item xs i | None \<Rightarrow> Inl TypeError)"
| "py_getitem (JStr s) k =
     (case as_index k of
        Some i \<Rightarrow> (case seq_item s i of Inl e \<Rightarrow> Inl e | Inr c \<Rightarrow> Inr (JStr [c]))
      | None \<Rightarrow> Inl TypeError)"
| "py_getitem v k = Inl TypeError"

text \<open>The elements a \<open>for\<close> loop visits: keys of a dict, elements of a list, characters of
  a string.\<close>

fun py_iter :: "json \<Rightarrow> exn + json list" where
  "py_iter (JObj kvs) = Inr (map (\<lambda>kv. JStr (fst kv)) kvs)"
| "py_iter (JArr xs) = Inr xs"
| "py_iter (JStr s) = Inr (map (\<lambda>c. JStr [c]) s)"
| "py_iter v = Inl TypeError"

text \<open>\<open>v.get(k)\<close>: only a dict has the method.\<close>

fun py_get :: "json \<Rightarrow> string \<Rightarrow> exn + json" where
  "py_get (JObj kvs) k = Inr (case map_of kvs k of Some v \<Rightarrow> v | None \<Rightarrow> JNull)"
| "py_get v k = Inl AttributeError"

text \<open>\<open>str.strip()\<close>: the white space of \<open>str.isspace\<close> below code point 256.\<close>

definition is_space :: "char \<Rightarrow> bool" where
  "is_space c = ((of_char c :: nat) \<in> {9, 10, 11, 12, 13, 28, 29, 30, 31, 32, 133, 160})"

definition strip :: "string \<Rightarrow> string" where
  "strip s = rev (dropWhile is_space (rev (dropWhile is_space s)))"

text \<open>\<open>v.strip()\<close>: only a string has the method.\<close>

fun py_strip :: "json \<Rightarrow> exn + json" where
  "py_strip (JStr s) = Inr (JStr (strip s))"
| "py_strip v = Inl AttributeError"

text \<open>\<open>"\n".join(lines)\<close>.\<close>

fun join_lines :: "string list \<Rightarrow> string" where
  "join_lines [] = []"
| "join_lines [l] = l"
| "join_lines (l # m # ls) = l @ CHR 0x0A # join_lines (m # ls)"

text \<open>\<open>"".join(c for c in kids if isinstance(c, str))\<close>.\<close>

fun join_strs :: "json list \<Rightarrow> string" where
  "join_strs [] = []"
| "join_strs (JStr s # vs) = s @ join_strs vs"
| "join_strs (v # vs) = join_strs vs"


section \<open>The extractor: \<open>parse_news_html\<close> (fetch\_html\_content.py)\<close>

text \<open>
  \<open>BeautifulSoup\<close> and \<open>json.loads\<close> are library code. The model takes what they deliver:
  for each \<open>script\<close> tag of type \<open>application/prs.init-data+json\<close>, in document order,
  the outcome of \<open>json.loads(script.string)\<close>; the stripped text of the \<open>h1\<close> tag each
  of the three \<open>soup.find\<close> calls finds, if any; and, when a \<open>div\<close> of class
  \<open>body-KX2tCBZq\<close> exists, the stripped text of each \<open>p\<close> inside it.
\<close>

record soup =
  scripts :: "(exn + json) list"
  h1_title_KX2tCBZq :: "string option"
  h1_tv_news_article_title :: "string option"
  h1_first :: "string option"
  div_body_paragraphs :: "string list option"

text \<open>The two local variables shared by both tiers, and the returned dictionary.\<close>

record extraction =
  title_var :: json
  content_paragraphs :: "string list"

record parsed_news =
  news_title :: json
  news_content :: string

text \<open>Control leaves a block of statements by falling through, by \<open>return\<close> or by an
  exception; the appends and assignments made before an exception stay.\<close>

datatype flow = Continue extraction | Return parsed_news | Raise exn extraction

text \<open>Lines 84 to 87: the body of the loop over paragraph nodes.\<close>

definition paragraph_step :: "json \<Rightarrow> string list \<Rightarrow> exn + string list" where
  "paragraph_step paragraph_node ps =
     (case py_get paragraph_node ''type'' of
        Inl e \<Rightarrow> Inl e
      | Inr ty \<Rightarrow>
          if ty \<noteq> JStr ''p'' then Inr ps
          else (case py_in ''children'' paragraph_node of
                  Inl e \<Rightarrow> Inl e
                | Inr False \<Rightarrow> Inr ps
                | Inr True \<Rightarrow>
                    (case py_getitem paragraph_node (JStr ''children'') of
                       Inl e \<Rightarrow> Inl e
                     | Inr kids \<Rightarrow>
                         (case py_iter kids of
                            Inl e \<Rightarrow> Inl e
                          | Inr cs \<Rightarrow>
                              if join_strs cs \<noteq> [] then Inr (ps @ [join_strs cs])
                              else Inr ps))))"

fun paragraph_loop :: "json list \<Rightarrow> string list \<Rightarrow> exn option \<times> string list" where
  "paragraph_loop [] ps = (None, ps)"
| "paragraph_loop (node # nodes) ps =
     (case paragraph_step node ps of
        Inl e \<Rightarrow> (Some e, ps)
      | Inr ps' \<Rightarrow> paragraph_loop nodes ps')"

text \<open>Lines 77 and 78: the title.\<close>

definition read_title :: "json \<Rightarrow> extraction \<Rightarrow> flow" where
  "read_title story_data st =
     (case py_in ''title'' story_data of
        Inl e \<Rightarrow> Raise e st
      | Inr False \<Rightarrow> Continue st
      | Inr True \<Rightarrow>
          (case py_getitem story_data (JStr ''title'') of
             Inl e \<Rightarrow> Raise e st
           | Inr t \<Rightarrow> Continue (st\<lparr>title_var := t\<rparr>)))"

text \<open>Lines 90 to 94: the return from the first tier.\<close>

definition return_if_found :: "extraction \<Rightarrow> flow" where
  "return_if_found st =
     (if truthy (title_var st) \<and> content_paragraphs st \<noteq> [] then
        (case py_strip (title_var st) of
           Inl e \<Rightarrow> Raise e st
         | Inr t \<Rightarrow> Return \<lparr>news_title = t, news_content = join_lines (content_paragraphs st)\<rparr>)
      else Continue st)"

text \<open>Lines 81 to 94: the description tree.\<close>

definition read_description :: "json \<Rightarrow> extraction \<Rightarrow> flow" where
  "read_description story_data st =
     (case py_in ''astDescription'' story_data of
        Inl e \<Rightarrow> Raise e st
      | Inr False \<Rightarrow> Continue st
      | Inr True \<Rightarrow>
          (case py_getitem story_data (JStr ''astDescription'') of
             Inl e \<Rightarrow> Raise e st
           | Inr ast \<Rightarrow>
               (case py_in ''children'' ast of
                  Inl e \<Rightarrow> Raise e st
                | Inr False \<Rightarrow> Continue st
                | Inr True \<Rightarrow>
                    (case py_getitem ast (JStr ''children'') of
                       Inl e \<Rightarrow> Raise e st
                     | Inr children \<Rightarrow>
                         (case py_iter children of
                            Inl e \<Rightarrow> Raise e st
                          | Inr nodes \<Rightarrow>
                              (case paragraph_loop nodes (content_paragraphs st) of
                                 (Some e, ps) \<Rightarrow> Raise e (st\<lparr>content_paragraphs := ps\<rparr>)
                               | (None, ps) \<Rightarrow>
                                   return_if_found (st\<lparr>content_paragraphs := ps\<rparr>)))))))"

text \<open>Lines 74 to 94: one story.\<close>

definition read_story :: "json \<Rightarrow> extraction \<Rightarrow> flow" where
  "read_story story_data st =
     (case read_title story_data st of
        Continue st' \<Rightarrow> read_description story_data st'
      | out \<Rightarrow> out)"

text \<open>Lines 72 to 94: the loop over the keys of the parsed data.\<close>

fun key_loop :: "json \<Rightarrow> json list \<Rightarrow> extraction \<Rightarrow> flow" where
  "key_loop data [] st = Continue st"
| "key_loop data (key # keys) st =
     (case py_getitem data key of
        Inl e \<Rightarrow> Raise e st
      | Inr v \<Rightarrow>
          if \<not> is_dict v then key_loop data keys st
          else (case py_in ''story'' v of
                  Inl e \<Rightarrow> Raise e st
                | Inr False \<Rightarrow> key_loop data keys st
                | Inr True \<Rightarrow>
                    (case py_getitem v (JStr ''story'') of
                       Inl e \<Rightarrow> Raise e st
                     | Inr story_data \<Rightarrow>
                         (case read_story story_data st of
                            Continue st' \<Rightarrow> key_loop data keys st'
                          | out \<Rightarrow> out))))"

text \<open>Lines 69 to 94: the body of the \<open>try\<close>.\<close>

definition try_script :: "exn + json \<Rightarrow> extraction \<Rightarrow> flow" where
  "try_script loaded st =
     (case loaded of
        Inl e \<Rightarrow> Raise e st
      | Inr data \<Rightarrow>
          (case py_iter data of
             Inl e \<Rightarrow> Raise e st
           | Inr keys \<Rightarrow> key_loop data keys st))"

text \<open>Line 95: \<open>except (json.JSONDecodeError, TypeError, KeyError)\<close>.\<close>

fun caught :: "exn \<Rightarrow> bool" where
  "caught JSONDecodeError = True"
| "caught TypeError = True"
| "caught KeyError = True"
| "caught e = False"

text \<open>Lines 67 to 97: one script, with the handler.\<close>

definition script_step :: "exn + json \<Rightarrow> extraction \<Rightarrow> flow" where
  "script_step loaded st =
     (case try_script loaded st of
        Raise e st' \<Rightarrow> if caught e then Continue st' else Raise e st'
      | out \<Rightarrow> out)"

fun script_loop :: "(exn + json) list \<Rightarrow> extraction \<Rightarrow> flow" where
  "script_loop [] st = Continue st"
| "script_loop (s # ss) st =
     (case script_step s st of
        Continue st' \<Rightarrow> script_loop ss st'
      | out \<Rightarrow> out)"

text \<open>Lines 104 to 110: the title of the second tier.\<close>

definition find_title_tag :: "soup \<Rightarrow> string option" where
  "find_title_tag sp =
     (case h1_title_KX2tCBZq sp of
        Some t \<Rightarrow> Some t
      | None \<Rightarrow>
          (case h1_tv_news_article_title sp of
             Some t \<Rightarrow> Some t
           | None \<Rightarrow> h1_first sp))"

text \<open>Lines 104 to 133: the second tier and the final result.\<close>

definition html_fallback :: "soup \<Rightarrow> extraction \<Rightarrow> parsed_news" where
  "html_fallback sp st =
     (let title = (case find_title_tag sp of Some t \<Rightarrow> JStr t | None \<Rightarrow> title_var st);
          paragraphs =
            (case div_body_paragraphs sp of
               Some ps \<Rightarrow> content_paragraphs st @ filter (\<lambda>p. p \<noteq> []) ps
             | None \<Rightarrow> content_paragraphs st)
      in if paragraphs = [] then
           \<lparr>news_title = (if truthy title then title else JStr ''No Title Found''),
            news_content = ''No readable content found on this page after trying all methods.''\<rparr>
         else \<lparr>news_title = title, news_content = join_lines paragraphs\<rparr>)"

definition initial_extraction :: extraction where
  "initial_extraction = \<lparr>title_var = JStr [], content_paragraphs = []\<rparr>"

text \<open>The function itself, given the parser. \<open>Inl e\<close>: the exception \<open>e\<close> reaches the
  caller.\<close>

definition parse_news_html :: "(string \<Rightarrow> soup) \<Rightarrow> string \<Rightarrow> exn + parsed_news" where
  "parse_news_html BeautifulSoup html_content =
     (if html_content = [] then
        Inr \<lparr>news_title = JStr ''Error'', news_content = ''Empty HTML content provided.''\<rparr>
      else
        (case script_loop (scripts (BeautifulSoup html_content)) initial_extraction of
           Return r \<Rightarrow> Inr r
         | Raise e st \<Rightarrow> Inl e
         | Continue st \<Rightarrow> Inr (html_fallback (BeautifulSoup html_content) st)))"

section \<open>The store (database.py)\<close>

text \<open>
  A row of table \<open>news\<close>. The columns declared \<open>NOT NULL\<close> hold a string, the others
  a string or \<open>NULL\<close>. Column \<open>created_at\<close> is filled by the engine's clock and read by
  no statement of the program; it is left out.
\<close>

record news_row =
  row_id :: nat
  symbol :: string
  title :: string
  content :: "string option"
  summary :: "string option"
  link :: string
  source :: "string option"
  published_at :: "string option"

text \<open>The table in scan order, and the counter that \<open>AUTOINCREMENT\<close> keeps in
  \<open>sqlite_sequence\<close>.\<close>

record database =
  news :: "news_row list"
  sqlite_sequence :: nat

definition empty_database :: database where
  "empty_database = \<lparr>news = [], sqlite_sequence = 0\<rparr>"

text \<open>\<open>init_db\<close>: \<open>CREATE TABLE IF NOT EXISTS\<close>. \<open>None\<close> is a file without the table.\<close>

definition init_db :: "database option \<Rightarrow> database" where
  "init_db file = (case file of None \<Rightarrow> empty_database | Some db \<Rightarrow> db)"

text \<open>A candidate record: a dictionary from keys to strings; \<open>item.get(k)\<close> is \<open>item k\<close>.\<close>

type_synonym item = "string \<rightharpoonup> string"

definition next_rowid :: "database \<Rightarrow> nat" where
  "next_rowid db = Suc (fold max (map row_id (news db)) (sqlite_sequence db))"

text \<open>
  Lines 39 to 49: the \<open>INSERT\<close>. It fails with \<open>IntegrityError\<close> when one of the
  \<open>NOT NULL\<close> columns would be \<open>NULL\<close> or the link is already in the table, and then
  changes nothing.
\<close>

definition insert_news :: "database \<Rightarrow> item \<Rightarrow> exn + database" where
  "insert_news db item =
     (case (item ''symbol'', item ''title'', item ''link'') of
        (Some s, Some t, Some l) \<Rightarrow>
          if l \<in> set (map link (news db)) then Inl IntegrityError
          else Inr \<lparr>news = news db @
                       [\<lparr>row_id = next_rowid db, symbol = s, title = t,
                         content = item ''content'', summary = None, link = l,
                         source = item ''source'', published_at = item ''published''\<rparr>],
                    sqlite_sequence = next_rowid db\<rparr>
      | _ \<Rightarrow> Inl IntegrityError)"

text \<open>What the function prints.\<close>

datatype printed =
    Skipping_duplicate_news "string option" "string option"
  | Saved_new_news_items nat

text \<open>
  Lines 37 to 54: the loop. The only exception an \<open>INSERT\<close> of strings raises is the
  \<open>IntegrityError\<close>, so the handler of line 53 is never entered.
\<close>

fun save_loop ::
  "item list \<Rightarrow> database \<Rightarrow> nat \<Rightarrow> printed list \<Rightarrow> database \<times> nat \<times> printed list" where
  "save_loop [] db saved_count out = (db, saved_count, out)"
| "save_loop (item # items) db saved_count out =
     (case insert_news db item of
        Inr db' \<Rightarrow> save_loop items db' (saved_count + 1) out
      | Inl e \<Rightarrow>
          save_loop items db saved_count
            (out @ [Skipping_duplicate_news (item ''title'') (item ''link'')]))"

text \<open>The outcome of a call: the table, the printed lines and the value returned, where
  \<open>None\<close> is Python's \<open>None\<close>.\<close>

record save_result =
  store :: database
  stdout :: "printed list"
  return_value :: "nat option"

text \<open>\<open>save_news\<close>: the function has no \<open>return\<close> statement.\<close>

definition save_news :: "database \<Rightarrow> item list \<Rightarrow> save_result" where
  "save_news db news_items =
     (case save_loop news_items db 0 [] of
        (db', saved_count, out) \<Rightarrow>
          \<lparr>store = db', stdout = out @ [Saved_new_news_items saved_count],
           return_value = None\<rparr>)"

record backlog_entry =
  entry_id :: nat
  entry_title :: string
  entry_content :: "string option"

definition unsummarized :: "news_row \<Rightarrow> bool" where
  "unsummarized r = (summary r = None \<or> summary r = Some [])"

definition get_unsmarized_news :: "database \<Rightarrow> backlog_entry list" where
  "get_unsmarized_news db =
     map (\<lambda>r. \<lparr>entry_id = row_id r, entry_title = title r, entry_content = content r\<rparr>)
       (filter unsummarized (news db))"

definition update_news_summary :: "database \<Rightarrow> nat \<Rightarrow> string option \<Rightarrow> database" where
  "update_news_summary db news_id s =
     db\<lparr>news := map (\<lambda>r. if row_id r = news_id then r\<lparr>summary := s\<rparr> else r) (news db)\<rparr>"

text \<open>The order of \<open>TEXT\<close> values under the default collation: byte by byte, a proper
  prefix first.\<close>

fun text_le :: "string \<Rightarrow> string \<Rightarrow> bool" where
  "text_le [] ys = True"
| "text_le (x # xs) [] = False"
| "text_le (x # xs) (y # ys) =
     ((of_char x :: nat) < of_char y \<or> (x = y \<and> text_le xs ys))"

text \<open>SQL conditions have three values; \<open>None\<close> is \<open>NULL\<close>.\<close>

definition sql_between :: "string option \<Rightarrow> string \<Rightarrow> string \<Rightarrow> bool option" where
  "sql_between v lo hi =
     (case v of None \<Rightarrow> None | Some x \<Rightarrow> Some (text_le lo x \<and> text_le x hi))"

fun sql_and :: "bool option \<Rightarrow> bool option \<Rightarrow> bool option" where
  "sql_and (Some False) q = Some False"
| "sql_and p (Some False) = Some False"
| "sql_and (Some True) (Some True) = Some True"
| "sql_and p q = None"

text \<open>Lines 95 to 100: the \<open>WHERE\<close> clause as built for the given arguments.\<close>

definition where_clause :: "string \<Rightarrow> string \<Rightarrow> string option \<Rightarrow> news_row \<Rightarrow> bool option" where
  "where_clause start_date_str end_date_str symb r =
     (let between = sql_between (published_at r)
                      (start_date_str @ '' 00:00:00 UTC'') (end_date_str @ '' 23:59:59 UTC'')
      in case symb of
           None \<Rightarrow> between
         | Some s \<Rightarrow> if s = [] then between else sql_and between (Some (symbol r = s)))"

text \<open>The rows the statement selects: those whose condition is true.\<close>

definition date_range_rows :: "database \<Rightarrow> string \<Rightarrow> string \<Rightarrow> string option \<Rightarrow> news_row list" where
  "date_range_rows db start_date_str end_date_str symb =
     filter (\<lambda>r. where_clause start_date_str end_date_str symb r = Some True) (news db)"

record summary_entry =
  summary_title :: string
  summary_text :: "string option"

definition summary_of :: "news_row \<Rightarrow> summary_entry" where
  "summary_of r = \<lparr>summary_title = title r, summary_text = summary r\<rparr>"

definition get_news_by_date_range ::
  "database \<Rightarrow> string \<Rightarrow> string \<Rightarrow> string option \<Rightarrow> summary_entry list" where
  "get_news_by_date_range db start_date_str end_date_str symb =
     map summary_of (date_range_rows db start_date_str end_date_str symb)"


section \<open>The summarization service (llm\_service.py)\<close>

text \<open>
  The remote call \<open>client.chat.completions.create\<close> either raises or answers with a
  message whose content is a string or \<open>None\<close>. The client is a function of the system
  and the user message.
\<close>

datatype completion = Failed | Content "string option"

record LLMService =
  api_key :: "string option"
  client :: "string \<Rightarrow> string \<Rightarrow> completion"

definition configured :: "LLMService \<Rightarrow> bool" where
  "configured svc = (api_key svc \<noteq> None \<and> api_key svc \<noteq> Some [])"

text \<open>\<open>f"{x}"\<close> for a string or \<open>None\<close>.\<close>

definition py_str :: "string option \<Rightarrow> string" where
  "py_str x = (case x of None \<Rightarrow> ''None'' | Some s \<Rightarrow> s)"

text \<open>\<open>text[:100]\<close>: \<open>None\<close> cannot be sliced.\<close>

definition first_100 :: "string option \<Rightarrow> exn + string" where
  "first_100 x = (case x of None \<Rightarrow> Inl TypeError | Some s \<Rightarrow> Inr (take 100 s))"

definition summarize_system :: string where
  "summarize_system =
     ''You are a helpful assistant that summarizes news articles concisely. Output format: Summary: <summary>''"

definition summarize_prompt :: "string option \<Rightarrow> string" where
  "summarize_prompt x =
     ''Please summarize the following news article:'' @ [CHR 0x0A, CHR 0x0A] @ py_str x"

text \<open>
  \<open>summarize_text\<close>. A content of \<open>None\<close> has no \<open>strip\<close>; the \<open>AttributeError\<close> is
  caught by the handler like a failure of the call. The handler slices the text again.
\<close>

definition summarize_text :: "LLMService \<Rightarrow> string option \<Rightarrow> exn + string" where
  "summarize_text svc x =
     (if \<not> configured svc then
        (case first_100 x of
           Inl e \<Rightarrow> Inl e
         | Inr t \<Rightarrow> Inr (''Placeholder Summary: '' @ t @ ''...''))
      else
        (case client svc summarize_system (summarize_prompt x) of
           Content (Some c) \<Rightarrow> Inr (strip c)
         | _ \<Rightarrow>
             (case first_100 x of
                Inl e \<Rightarrow> Inl e
              | Inr t \<Rightarrow>
                  Inr (''Error Summary: Failed to summarize due to LLM error. Original text start: ''
                       @ t @ ''...''))))"

text \<open>Decimal digits of a number, as \<open>f"{n}"\<close> prints them.\<close>

fun str_nat :: "nat \<Rightarrow> string" where
  "str_nat n =
     (if n < 10 then [char_of (48 + n)]
      else str_nat (n div 10) @ [char_of (48 + n mod 10)])"

fun report_lines :: "nat \<Rightarrow> summary_entry list \<Rightarrow> string" where
  "report_lines i [] = []"
| "report_lines i (x # xs) =
     str_nat (i + 1) @ ''. '' @ summary_title x @ [CHR 0x0A] @
     ''   Summary: '' @ py_str (summary_text x) @ [CHR 0x0A] @ report_lines (i + 1) xs"

definition report_system :: string where
  "report_system =
     ''You are a financial analyst. Generate a concise daily news report based on the provided summaries. Highlight key trends or important events.''"

definition report_prompt :: "summary_entry list \<Rightarrow> string" where
  "report_prompt news_summaries =
     ''Here are the news summaries for today:'' @ [CHR 0x0A, CHR 0x0A] @
     ''Daily News Report:'' @ [CHR 0x0A, CHR 0x0A] @ report_lines 0 news_summaries @
     [CHR 0x0A, CHR 0x0A] @ ''Please generate a comprehensive daily report.''"

text \<open>\<open>generate_daily_report\<close>: the text returned, and the requests sent to the client.\<close>

definition generate_daily_report ::
  "LLMService \<Rightarrow> summary_entry list \<Rightarrow> string \<times> (string \<times> string) list" where
  "generate_daily_report svc news_summaries =
     (if \<not> configured svc then (''Placeholder Daily Report: LLM API key not configured.'', [])
      else if news_summaries = [] then (''No news summaries provided for daily report.'', [])
      else
        (case client svc report_system (report_prompt news_summaries) of
           Content (Some c) \<Rightarrow> (strip c, [(report_system, report_prompt news_summaries)])
         | _ \<Rightarrow>
             (''Error Daily Report: Failed to generate due to LLM error. Summaries provided: ''
                @ str_nat (length news_summaries),
              [(report_system, report_prompt news_summaries)])))"


section \<open>The pipeline (news\_processor.py)\<close>

text \<open>The argument of \<open>process_and_summarize_news\<close>: a dictionary with the keys
  \<open>symbol\<close> and \<open>news\<close>, each of which may be missing.\<close>

record news_data =
  data_symbol :: "string option"
  data_news :: "item list option"

text \<open>Lines 16 to 26: stamp the symbol and save.\<close>

definition news_items_for_db :: "news_data \<Rightarrow> item list" where
  "news_items_for_db nd =
     map (\<lambda>item. item(''symbol'' \<mapsto> (case data_symbol nd of Some s \<Rightarrow> s | None \<Rightarrow> ''UNKNOWN'')))
       (case data_news nd of Some items \<Rightarrow> items | None \<Rightarrow> [])"

definition save_phase :: "database \<Rightarrow> news_data \<Rightarrow> database" where
  "save_phase db nd =
     (if news_items_for_db nd \<noteq> [] then store (save_news db (news_items_for_db nd)) else db)"

text \<open>Lines 32 to 34: the loop over the backlog. An exception of \<open>summarize_text\<close> ends
  the loop and reaches the caller; the updates made before stay.\<close>

fun summarize_loop ::
  "LLMService \<Rightarrow> backlog_entry list \<Rightarrow> database \<Rightarrow> exn option \<times> database" where
  "summarize_loop svc [] db = (None, db)"
| "summarize_loop svc (news_item # rest) db =
     (case summarize_text svc (entry_content news_item) of
        Inl e \<Rightarrow> (Some e, db)
      | Inr s \<Rightarrow> summarize_loop svc rest (update_news_summary db (entry_id news_item) (Some s)))"

definition summarize_phase :: "LLMService \<Rightarrow> database \<Rightarrow> exn option \<times> database" where
  "summarize_phase svc db = summarize_loop svc (get_unsmarized_news db) db"

definition process_and_summarize_news ::
  "LLMService \<Rightarrow> database \<Rightarrow> news_data \<Rightarrow> exn option \<times> database" where
  "process_and_summarize_news svc db nd = summarize_phase svc (save_phase db nd)"

definition no_summaries_message :: "string \<Rightarrow> string option \<Rightarrow> string" where
  "no_summaries_message target_date_str symb =
     ''No news summaries found for '' @ target_date_str @ '' (Symbol: '' @
     (case symb of None \<Rightarrow> ''All'' | Some s \<Rightarrow> if s = [] then ''All'' else s) @
     '') to generate a report.''"

text \<open>\<open>create_daily_report\<close>: the report, and the requests sent to the client.\<close>

definition create_daily_report ::
  "LLMService \<Rightarrow> database \<Rightarrow> string \<Rightarrow> string option \<Rightarrow> string \<times> (string \<times> string) list" where
  "create_daily_report svc db target_date_str symb =
     (if get_news_by_date_range db target_date_str target_date_str symb = [] then
        (no_summaries_message target_date_str symb, [])
      else generate_daily_report svc
             (get_news_by_date_range db target_date_str target_date_str symb))"

section \<open>The store as a state machine\<close>

text \<open>Every operation of database.py, as a step on the table. The two queries leave it
  as it is.\<close>

datatype operation =
    Init_db
  | Save_news "item list"
  | Get_unsmarized_news
  | Update_news_summary nat "string option"
  | Get_news_by_date_range string string "string option"

fun apply_operation :: "database \<Rightarrow> operation \<Rightarrow> database" where
  "apply_operation db Init_db = init_db (Some db)"
| "apply_operation db (Save_news news_items) = store (save_news db news_items)"
| "apply_operation db Get_unsmarized_news = db"
| "apply_operation db (Update_news_summary news_id s) = update_news_summary db news_id s"
| "apply_operation db (Get_news_by_date_range start_date_str end_date_str symb) = db"


section \<open>Notions of the specification\<close>

text \<open>A candidate that gives the three columns declared \<open>NOT NULL\<close>.\<close>

definition has_required :: "item \<Rightarrow> bool" where
  "has_required c = (c ''symbol'' \<noteq> None \<and> c ''title'' \<noteq> None \<and> c ''link'' \<noteq> None)"

text \<open>
  The duplicates of a batch: the candidates whose link is stored when their insert is
  attempted, that is, stored before the call or carried by an earlier candidate of the
  batch. The first argument lists the links seen so far.
\<close>

fun duplicate_count :: "string list \<Rightarrow> item list \<Rightarrow> nat" where
  "duplicate_count seen [] = 0"
| "duplicate_count seen (c # cs) =
     (case c ''link'' of
        None \<Rightarrow> duplicate_count seen cs
      | Some l \<Rightarrow> (if l \<in> set seen then 1 else 0) + duplicate_count (l # seen) cs)"

text \<open>
  Time stamps as the fetcher writes them, \<open>YYYY-MM-DD HH:MM:SS UTC\<close>, and days as the
  report takes them, \<open>YYYY-MM-DD\<close>. A time stamp is read as the list of its six numbers,
  a day as the list of its three; lists of numbers are compared field by field, which is
  the order of time.
\<close>

definition is_digit :: "char \<Rightarrow> bool" where
  "is_digit c = (48 \<le> (of_char c :: nat) \<and> (of_char c :: nat) \<le> 57)"

definition digits :: "nat \<Rightarrow> string \<Rightarrow> bool" where
  "digits n s = (length s = n \<and> list_all is_digit s)"

fun decimal :: "string \<Rightarrow> nat" where
  "decimal [] = 0"
| "decimal (c # cs) = (of_char c - 48) * 10 ^ length cs + decimal cs"

definition day_string :: "string \<Rightarrow> string \<Rightarrow> string \<Rightarrow> string" where
  "day_string y mo d = y @ ''-'' @ mo @ ''-'' @ d"

definition stamp_string ::
  "string \<Rightarrow> string \<Rightarrow> string \<Rightarrow> string \<Rightarrow> string \<Rightarrow> string \<Rightarrow> string" where
  "stamp_string y mo d h mi s =
     day_string y mo d @ '' '' @ h @ '':'' @ mi @ '':'' @ s @ '' UTC''"

definition day_fields :: "string \<Rightarrow> nat list option" where
  "day_fields p =
     (let y = take 4 p; mo = take 2 (drop 5 p); d = take 2 (drop 8 p)
      in if p = day_string y mo d \<and> digits 4 y \<and> digits 2 mo \<and> digits 2 d
         then Some [decimal y, decimal mo, decimal d] else None)"

definition stamp_fields :: "string \<Rightarrow> nat list option" where
  "stamp_fields p =
     (let y = take 4 p; mo = take 2 (drop 5 p); d = take 2 (drop 8 p);
          h = take 2 (drop 11 p); mi = take 2 (drop 14 p); s = take 2 (drop 17 p)
      in if p = stamp_string y mo d h mi s \<and> digits 4 y \<and> digits 2 mo \<and> digits 2 d \<and>
            digits 2 h \<and> digits 2 mi \<and> digits 2 s
         then Some [decimal y, decimal mo, decimal d, decimal h, decimal mi, decimal s]
         else None)"

fun chron_le :: "nat list \<Rightarrow> nat list \<Rightarrow> bool" where
  "chron_le [] ys = True"
| "chron_le (x # xs) [] = False"
| "chron_le (x # xs) (y # ys) = (x < y \<or> (x = y \<and> chron_le xs ys))"

text \<open>The row's time of publication lies between the first second of the start day and
  second 59 of the last minute of the end day.\<close>

definition published_within :: "nat list \<Rightarrow> nat list \<Rightarrow> news_row \<Rightarrow> bool" where
  "published_within start_day end_day r =
     (case published_at r of
        None \<Rightarrow> False
      | Some p \<Rightarrow>
          (case stamp_fields p of
             None \<Rightarrow> False
           | Some t \<Rightarrow> chron_le (start_day @ [0, 0, 0]) t \<and> chron_le t (end_day @ [23, 59, 59])))"

text \<open>A reply of the client that leaves a summary: the call fails, or the content is
  missing, or it is not blank.\<close>

definition leaves_summary :: "completion \<Rightarrow> bool" where
  "leaves_summary reply =
     (case reply of Failed \<Rightarrow> True | Content None \<Rightarrow> True | Content (Some c) \<Rightarrow> strip c \<noteq> [])"

text \<open>The stored rows for a link.\<close>

definition rows_with_link :: "database \<Rightarrow> string \<Rightarrow> news_row list" where
  "rows_with_link db l = filter (\<lambda>r. link r = l) (news db)"


section \<open>Example inputs\<close>

text \<open>The dictionary \<open>{'symbol': s, 'title': t, 'link': l}\<close>.\<close>

definition candidate :: "string \<Rightarrow> string \<Rightarrow> string \<Rightarrow> item" where
  "candidate s t l = map_of [(''symbol'', s), (''title'', t), (''link'', l)]"

(*FIXTURES*)

section \<open>The store: inserting a batch\<close>

lemma duplicate_count_le: "duplicate_count seen cs \<le> length cs"
proof (induction cs arbitrary: seen)
  case Nil
  then show ?case by simp
next
  case (Cons c cs)
  have "duplicate_count seen cs \<le> length cs" "\<And>l. duplicate_count (l # seen) cs \<le> length cs"
    using Cons.IH by blast+
  then show ?case
    by (auto split: option.splits simp: le_SucI)
qed

lemma duplicate_count_cong:
  "set seen = set seen' \<Longrightarrow> duplicate_count seen cs = duplicate_count seen' cs"
proof (induction cs arbitrary: seen seen')
  case Nil
  then show ?case by simp
next
  case (Cons c cs)
  have "\<And>l. duplicate_count (l # seen) cs = duplicate_count (l # seen') cs"
    using Cons.IH [of "_ # seen" "_ # seen'"] Cons.prems by simp
  moreover have "duplicate_count seen cs = duplicate_count seen' cs"
    using Cons by blast
  ultimately show ?case
    using Cons.prems by (simp split: option.splits)
qed

lemma insert_news_required:
  assumes "has_required c"
  shows "insert_news db c =
    (if the (c ''link'') \<in> set (map link (news db)) then Inl IntegrityError
     else Inr \<lparr>news = news db @
                       [\<lparr>row_id = next_rowid db, symbol = the (c ''symbol''), title = the (c ''title''),
                         content = c ''content'', summary = None, link = the (c ''link''),
                         source = c ''source'', published_at = c ''published''\<rparr>],
                    sqlite_sequence = next_rowid db\<rparr>)"
  using assms by (auto simp: insert_news_def has_required_def)

lemma insert_news_cases:
  "insert_news db c = Inl IntegrityError \<or>
   (\<exists>r. insert_news db c = Inr \<lparr>news = news db @ [r], sqlite_sequence = next_rowid db\<rparr>)"
  by (auto simp: insert_news_def split: option.splits)

lemma save_loop_ge: "n \<le> fst (snd (save_loop cs db n out))"
proof (induction cs arbitrary: db n out)
  case Nil
  then show ?case by simp
next
  case (Cons c cs)
  show ?case
  proof (cases "insert_news db c")
    case (Inl e)
    then show ?thesis using Cons.IH by simp
  next
    case (Inr db')
    then show ?thesis
      using Cons.IH [where db = db' and n = "n + 1" and out = out] by simp
  qed
qed

lemma save_loop_length:
  "length (news (fst (save_loop cs db n out))) =
     length (news db) + (fst (snd (save_loop cs db n out)) - n)"
proof (induction cs arbitrary: db n out)
  case Nil
  then show ?case by simp
next
  case (Cons c cs)
  show ?case
  proof (cases "insert_news db c")
    case (Inl e)
    then show ?thesis using Cons.IH by simp
  next
    case (Inr db')
    then have len: "length (news db') = Suc (length (news db))"
      using insert_news_cases [of db c] by auto
    have ge: "n + 1 \<le> fst (snd (save_loop cs db' (n + 1) out))"
      by (rule save_loop_ge)
    show ?thesis
      using Cons.IH [where db = db' and n = "n + 1" and out = out] Inr len ge by simp
  qed
qed

lemma save_loop_prefix:
  "take (length (news db)) (news (fst (save_loop cs db n out))) = news db"
proof (induction cs arbitrary: db n out)
  case Nil
  then show ?case by simp
next
  case (Cons c cs)
  show ?case
  proof (cases "insert_news db c")
    case (Inl e)
    then show ?thesis using Cons.IH by simp
  next
    case (Inr db')
    then obtain r where db': "news db' = news db @ [r]"
      using insert_news_cases [of db c] by auto
    have "take (length (news db)) (take (length (news db')) (news (fst (save_loop cs db' (n + 1) out))))
          = take (length (news db)) (news db')"
      using Cons.IH [where db = db' and n = "n + 1" and out = out] by simp
    then show ?thesis using Inr db' by (simp add: min_def)
  qed
qed

lemma save_loop_count:
  assumes "\<forall>c\<in>set cs. has_required c"
  shows "fst (snd (save_loop cs db n out)) =
           n + (length cs - duplicate_count (map link (news db)) cs)"
  using assms
proof (induction cs arbitrary: db n out)
  case Nil
  then show ?case by simp
next
  case (Cons c cs)
  then have c: "has_required c" and cs: "\<forall>c\<in>set cs. has_required c" by simp_all
  obtain l where l: "c ''link'' = Some l" using c by (auto simp: has_required_def)
  show ?case
  proof (cases "l \<in> set (map link (news db))")
    case True
    have ins: "insert_news db c = Inl IntegrityError"
      using True l by (simp add: insert_news_required [OF c])
    have dc: "duplicate_count (l # map link (news db)) cs = duplicate_count (map link (news db)) cs"
      using True by (intro duplicate_count_cong) auto
    have le: "duplicate_count (map link (news db)) cs \<le> length cs" by (rule duplicate_count_le)
    show ?thesis
      using Cons.IH [OF cs, where db = db and n = n
                     and out = "out @ [Skipping_duplicate_news (c ''title'') (c ''link'')]"] True le
      by (simp add: ins l dc)
  next
    case False
    define db' where "db' = \<lparr>news = news db @
                       [\<lparr>row_id = next_rowid db, symbol = the (c ''symbol''), title = the (c ''title''),
                         content = c ''content'', summary = None, link = the (c ''link''),
                         source = c ''source'', published_at = c ''published''\<rparr>],
                    sqlite_sequence = next_rowid db\<rparr>"
    have ins: "insert_news db c = Inr db'"
      using False l by (simp add: insert_news_required [OF c] db'_def)
    have dc: "duplicate_count (l # map link (news db)) cs = duplicate_count (map link (news db')) cs"
      by (intro duplicate_count_cong) (auto simp: db'_def l)
    have le: "duplicate_count (map link (news db')) cs \<le> length cs" by (rule duplicate_count_le)
    show ?thesis
      using Cons.IH [OF cs, where db = db' and n = "n + 1" and out = out] False le
      by (simp add: ins l dc Suc_diff_le)
  qed
qed

lemma save_news_fields:
  "return_value (save_news db cs) = None"
  "store (save_news db cs) = fst (save_loop cs db 0 [])"
  "last (stdout (save_news db cs)) = Saved_new_news_items (fst (snd (save_loop cs db 0 [])))"
  by (simp_all add: save_news_def split: prod.splits)

text \<open>
  C1, as amended. For a batch of N candidates that all give symbol, title and link, of
  which D are duplicates (their link is stored when their insert is attempted: stored
  before the call, or carried by an earlier candidate of the batch), \<open>save_news\<close> counts
  N - D inserts and prints that count as its last line, exactly N - D rows are appended
  to the table and the rows stored before stay as they were. The function returns
  \<open>None\<close>: the count is printed, not returned. Duplicates are skipped and the loop goes
  on; no exception reaches the caller.
\<close>

theorem save_news_counts:
  assumes "\<forall>c\<in>set news_items. has_required c"
  shows "last (stdout (save_news db news_items)) =
           Saved_new_news_items
             (length news_items - duplicate_count (map link (news db)) news_items) \<and>
         length (news (store (save_news db news_items))) =
           length (news db) +
           (length news_items - duplicate_count (map link (news db)) news_items) \<and>
         take (length (news db)) (news (store (save_news db news_items))) = news db \<and>
         return_value (save_news db news_items) = None"
  using save_loop_count [OF assms, of db 0 "[]"] save_loop_length [of news_items db 0 "[]"]
    save_loop_prefix [of db news_items 0 "[]"]
  by (simp add: save_news_fields)

text \<open>A store holding link 1, and a batch of three candidates: link 1 again, and link 2
  twice. One row is inserted.\<close>

theorem save_news_counts_witness:
  "has_required (candidate ''AAPL'' ''first'' ''http://example.com/1'') \<and>
   has_required (candidate ''AAPL'' ''second'' ''http://example.com/2'') \<and>
   last (stdout (save_news
      (store (save_news empty_database [candidate ''AAPL'' ''first'' ''http://example.com/1'']))
      [candidate ''AAPL'' ''first'' ''http://example.com/1'',
       candidate ''AAPL'' ''second'' ''http://example.com/2'',
       candidate ''AAPL'' ''second'' ''http://example.com/2''])) = Saved_new_news_items 1 \<and>
   length (news (store (save_news
      (store (save_news empty_database [candidate ''AAPL'' ''first'' ''http://example.com/1'']))
      [candidate ''AAPL'' ''first'' ''http://example.com/1'',
       candidate ''AAPL'' ''second'' ''http://example.com/2'',
       candidate ''AAPL'' ''second'' ''http://example.com/2'']))) = 2"
  using save_news_counts
    [of "[candidate ''AAPL'' ''first'' ''http://example.com/1'',
          candidate ''AAPL'' ''second'' ''http://example.com/2'',
          candidate ''AAPL'' ''second'' ''http://example.com/2'']"
        "store (save_news empty_database [candidate ''AAPL'' ''first'' ''http://example.com/1''])"]
  by (simp add: has_required_def candidate_def save_news_def insert_news_def
        empty_database_def next_rowid_def)

text \<open>
  C1 as stated fails: two candidates with the same link go into an empty table, so none
  of the two has a link already stored. The call returns \<open>None\<close>, not 2, and one row
  exists afterwards, not two.
\<close>

theorem save_news_counterexample:
  "return_value (save_news empty_database
      [candidate ''AAPL'' ''first'' ''http://example.com/1'',
       candidate ''AAPL'' ''second'' ''http://example.com/1'']) = None \<and>
   length (news (store (save_news empty_database
      [candidate ''AAPL'' ''first'' ''http://example.com/1'',
       candidate ''AAPL'' ''second'' ''http://example.com/1'']))) = 1 \<and>
   news empty_database = []"
  by (simp add: save_news_def insert_news_def candidate_def empty_database_def next_rowid_def)


section \<open>The store: links stay unique\<close>

lemma insert_news_distinct:
  assumes "insert_news db c = Inr db'" "distinct (map link (news db))"
  shows "distinct (map link (news db'))"
  using assms by (auto simp: insert_news_def split: option.splits if_splits)

lemma save_loop_distinct:
  "distinct (map link (news db)) \<Longrightarrow> distinct (map link (news (fst (save_loop cs db n out))))"
proof (induction cs arbitrary: db n out)
  case Nil
  then show ?case by simp
next
  case (Cons c cs)
  show ?case
  proof (cases "insert_news db c")
    case (Inl e)
    then show ?thesis using Cons by simp
  next
    case (Inr db')
    then show ?thesis
      using Cons.IH [where db = db' and n = "n + 1" and out = out]
        insert_news_distinct [OF Inr Cons.prems] by simp
  qed
qed

lemma save_loop_keeps_links:
  "set (map link (news db)) \<subseteq> set (map link (news (fst (save_loop cs db n out))))"
proof -
  have "set (take (length (news db)) (news (fst (save_loop cs db n out))))
          \<subseteq> set (news (fst (save_loop cs db n out)))"
    by (rule set_take_subset)
  then show ?thesis by (auto simp: save_loop_prefix)
qed

lemma save_loop_stores_links:
  assumes "c \<in> set cs" "has_required c"
  shows "the (c ''link'') \<in> set (map link (news (fst (save_loop cs db n out))))"
  using assms
proof (induction cs arbitrary: db n out)
  case Nil
  then show ?case by simp
next
  case (Cons a cs)
  show ?case
  proof (cases "c = a")
    case True
    show ?thesis
    proof (cases "the (c ''link'') \<in> set (map link (news db))")
      case in_db: True
      have "set (map link (news db)) \<subseteq> set (map link (news (fst (save_loop (a # cs) db n out))))"
        by (rule save_loop_keeps_links)
      then show ?thesis using in_db by blast
    next
      case False
      define db' where "db' = \<lparr>news = news db @
                       [\<lparr>row_id = next_rowid db, symbol = the (c ''symbol''), title = the (c ''title''),
                         content = c ''content'', summary = None, link = the (c ''link''),
                         source = c ''source'', published_at = c ''published''\<rparr>],
                    sqlite_sequence = next_rowid db\<rparr>"
      have ra: "has_required a" using Cons.prems(2) True by simp
      have ins: "insert_news db a = Inr db'"
        using False True by (simp add: insert_news_required [OF ra] db'_def)
      have "set (map link (news db')) \<subseteq> set (map link (news (fst (save_loop cs db' (n + 1) out))))"
        by (rule save_loop_keeps_links)
      moreover have "the (c ''link'') \<in> set (map link (news db'))" by (simp add: db'_def)
      ultimately show ?thesis using ins by auto
    qed
  next
    case False
    then have c: "c \<in> set cs" using Cons.prems by simp
    show ?thesis
    proof (cases "insert_news db a")
      case (Inl e)
      then show ?thesis using Cons.IH [OF c Cons.prems(2)] by simp
    next
      case (Inr db')
      then show ?thesis using Cons.IH [OF c Cons.prems(2)] by simp
    qed
  qed
qed

lemma distinct_one_row:
  "distinct (map f xs) \<Longrightarrow> x \<in> set (map f xs) \<Longrightarrow> length (filter (\<lambda>r. f r = x) xs) = 1"
proof (induction xs)
  case Nil
  then show ?case by simp
next
  case (Cons a xs)
  show ?case
  proof (cases "f a = x")
    case True
    then have "x \<notin> f ` set xs" using Cons.prems by auto
    then have "filter (\<lambda>r. f r = x) xs = []" by (auto simp: filter_empty_conv)
    then show ?thesis using True by simp
  next
    case False
    then show ?thesis using Cons by auto
  qed
qed

lemma update_news_summary_links:
  "map link (news (update_news_summary db i s)) = map link (news db)"
  by (simp add: update_news_summary_def comp_def)

lemma apply_operation_distinct:
  "distinct (map link (news db)) \<Longrightarrow> distinct (map link (news (apply_operation db op)))"
  by (cases op) (simp_all add: init_db_def save_news_fields save_loop_distinct update_news_summary_links)

lemma run_distinct:
  "distinct (map link (news db)) \<Longrightarrow> distinct (map link (news (foldl apply_operation db ops)))"
  by (induction ops arbitrary: db) (simp_all add: apply_operation_distinct)

text \<open>
  C5. From a table in which no two rows share a link, every sequence of store operations
  leads to such a table again; and after \<open>save_news\<close> on any batch, each candidate of the
  batch that gives symbol, title and link has exactly one stored row for its link,
  whether the link was stored before the call, new, or repeated inside the batch.
\<close>

theorem link_unique:
  assumes "distinct (map link (news db))"
  shows "distinct (map link (news (foldl apply_operation db ops))) \<and>
         (\<forall>c\<in>set news_items. has_required c \<longrightarrow>
            length (rows_with_link (store (save_news db news_items)) (the (c ''link''))) = 1)"
proof
  show "distinct (map link (news (foldl apply_operation db ops)))"
    using assms by (rule run_distinct)
  show "\<forall>c\<in>set news_items. has_required c \<longrightarrow>
            length (rows_with_link (store (save_news db news_items)) (the (c ''link''))) = 1"
  proof (intro ballI impI)
    fix c assume c: "c \<in> set news_items" "has_required c"
    have d: "distinct (map link (news (store (save_news db news_items))))"
      using assms by (simp add: save_news_fields save_loop_distinct)
    have m: "the (c ''link'') \<in> set (map link (news (store (save_news db news_items))))"
      using save_loop_stores_links [OF c] by (simp add: save_news_fields)
    show "length (rows_with_link (store (save_news db news_items)) (the (c ''link''))) = 1"
      using distinct_one_row [OF d m] by (simp add: rows_with_link_def)
  qed
qed

text \<open>The empty table after \<open>init_db\<close>; a batch that repeats a link, an update, and the
  same link in a later batch.\<close>

theorem link_unique_witness:
  "distinct (map link (news empty_database)) \<and>
   distinct (map link (news (foldl apply_operation empty_database
     [Init_db,
      Save_news [candidate ''AAPL'' ''first'' ''http://example.com/1'',
                 candidate ''AAPL'' ''again'' ''http://example.com/1''],
      Update_news_summary 1 (Some ''summary''),
      Save_news [candidate ''AAPL'' ''later'' ''http://example.com/1'']]))) \<and>
   has_required (candidate ''AAPL'' ''again'' ''http://example.com/1'') \<and>
   length (rows_with_link
     (store (save_news empty_database
        [candidate ''AAPL'' ''first'' ''http://example.com/1'',
         candidate ''AAPL'' ''again'' ''http://example.com/1'']))
     (the (candidate ''AAPL'' ''again'' ''http://example.com/1'' ''link''))) = 1"
  using link_unique
    [of empty_database
        "[Init_db,
          Save_news [candidate ''AAPL'' ''first'' ''http://example.com/1'',
                     candidate ''AAPL'' ''again'' ''http://example.com/1''],
          Update_news_summary 1 (Some ''summary''),
          Save_news [candidate ''AAPL'' ''later'' ''http://example.com/1'']]"
        "[candidate ''AAPL'' ''first'' ''http://example.com/1'',
          candidate ''AAPL'' ''again'' ''http://example.com/1'']"]
  by (simp add: empty_database_def has_required_def candidate_def)

end
